theory Spec2Isabelle
  imports Complex_Main "HOL-Library.Log_Nat"
begin

section \<open>The stock market rule blocks\<close>

text \<open>
  The class \<open>StockMarketFuzzyLogic\<close> of \<open>fuzzy_logic/stock_market_fuzzy_logic.py\<close>
  keeps six indicators and two values derived from them, and classifies them with
  three rule blocks. The category labels are the strings of the source. A method reads
  \<open>self\<close> and may assign to it, so each method takes the object and returns its result
  together with the object it leaves behind.

  The class is modelled twice. This first part takes the indicators as the numbers of
  the data model, \<^typ>\<open>real\<close>, with exact arithmetic; Python's true division raises on
  a zero divisor, HOL's \<open>x / 0\<close> is \<open>0\<close>, so the division is modelled with its error.
  The second part takes them as Python's \<open>int\<close> and \<open>float\<close> values, whose subtraction
  and division round to the nearest double and can raise \<open>OverflowError\<close>; what the
  constructor stores and when it fails is settled there.
\<close>

subsection \<open>The object and its construction\<close>

datatype py_error = ZeroDivisionError | OverflowError

record StockMarketFuzzyLogic =
  ma_s :: real
  ma_l :: real
  rsi :: real
  beta_stock :: real
  bid_price :: real
  ask_price :: real
  bid_ask_spread :: real
  dcm :: real

definition truediv :: "real \<Rightarrow> real \<Rightarrow> py_error + real" where
  "truediv a b = (if b = 0 then Inl ZeroDivisionError else Inr (a / b))"

text \<open>
  \<open>__init__\<close>: the six assignments of the arguments, then the spread (the statement that
  can raise) and the difference of the moving averages.
\<close>

definition init ::
  "real \<Rightarrow> real \<Rightarrow> real \<Rightarrow> real \<Rightarrow> real \<Rightarrow> real \<Rightarrow> py_error + StockMarketFuzzyLogic" where
  "init ma_s' ma_l' rsi' beta_stock' bid_price' ask_price' =
     (case truediv (ask_price' - bid_price') ask_price' of
        Inl e \<Rightarrow> Inl e
      | Inr spread \<Rightarrow>
          Inr \<lparr> ma_s = ma_s', ma_l = ma_l', rsi = rsi', beta_stock = beta_stock',
                bid_price = bid_price', ask_price = ask_price',
                bid_ask_spread = spread, dcm = ma_s' - ma_l' \<rparr>)"

subsection \<open>Rule block 1: validity of strategy\<close>

definition block1 :: "StockMarketFuzzyLogic \<Rightarrow> string \<times> StockMarketFuzzyLogic" where
  "block1 self =
     (if beta_stock self > 1 then
        (if bid_ask_spread self > 0.015 then (''slight'', self) else (''very'', self))
      else if beta_stock self < 1 then
        (if bid_ask_spread self > 0.015 then (''not'', self) else (''slight'', self))
      else (''slight'', self))"

subsection \<open>Rule block 2: strength of signals\<close>

definition block2 :: "StockMarketFuzzyLogic \<Rightarrow> string \<times> StockMarketFuzzyLogic" where
  "block2 self =
     (if rsi self > 70 then
        (if dcm self < 1 then (''neutral'', self) else (''average buy'', self))
      else if rsi self > 50 then
        (if dcm self < 1 then (''neutral'', self) else (''strong buy'', self))
      else if rsi self \<ge> 30 then
        (if dcm self < 1 then (''strong sell'', self) else (''neutral'', self))
      else
        (if dcm self < 1 then (''average sell'', self) else (''neutral'', self)))"

subsection \<open>Rule block 3: confidence and trading decision\<close>

text \<open>
  The nested conditional of \<open>block3\<close> on the two labels. Where no branch returns, the
  Python method ends without a \<open>return\<close> and its value is \<open>None\<close>.
\<close>

definition block3_rules :: "string \<Rightarrow> string \<Rightarrow> string option" where
  "block3_rules validity_of_strategy strength_of_signals =
     (if validity_of_strategy = ''slight'' then
        (if strength_of_signals = ''average buy'' then Some ''low confidence buy''
         else if strength_of_signals = ''strong buy'' then Some ''moderate confidence buy''
         else if strength_of_signals = ''neutral'' then Some ''no confidence trade''
         else if strength_of_signals = ''strong sell'' then Some ''moderate confidence sell''
         else if strength_of_signals = ''average sell'' then Some ''low confidence sell''
         else None)
      else if validity_of_strategy = ''very'' then
        (if strength_of_signals = ''average buy'' then Some ''moderate confidence buy''
         else if strength_of_signals = ''strong buy'' then Some ''high confidence buy''
         else if strength_of_signals = ''neutral'' then Some ''no confidence trade''
         else if strength_of_signals = ''strong sell'' then Some ''high confidence sell''
         else if strength_of_signals = ''average sell'' then Some ''moderate confidence sell''
         else None)
      else if validity_of_strategy = ''not'' then Some ''no confidence trade''
      else None)"

definition block3 :: "StockMarketFuzzyLogic \<Rightarrow> string option \<times> StockMarketFuzzyLogic" where
  "block3 self =
     (case block1 self of (validity_of_strategy, self1) \<Rightarrow>
        (case block2 self1 of (strength_of_signals, self2) \<Rightarrow>
           (block3_rules validity_of_strategy strength_of_signals, self2)))"

subsection \<open>The calling script\<close>

text \<open>
  \<open>main.py\<close> constructs one object and prints the value of its \<open>block3\<close>. The function
  \<open>evaluate\<close> is that pair of statements with the six numbers as parameters: an error
  of the constructor is not caught, so it is the outcome of the whole. \<open>main\<close> is the
  script itself, with its six literals.
\<close>

definition evaluate ::
  "real \<Rightarrow> real \<Rightarrow> real \<Rightarrow> real \<Rightarrow> real \<Rightarrow> real \<Rightarrow> py_error + string option" where
  "evaluate ma_s' ma_l' rsi' beta_stock' bid_price' ask_price' =
     (case init ma_s' ma_l' rsi' beta_stock' bid_price' ask_price' of
        Inl e \<Rightarrow> Inl e
      | Inr a \<Rightarrow> Inr (fst (block3 a)))"

definition main :: "py_error + string option" where
  "main = evaluate 127.64 107.17 50.64 1.28 131.75 131.78"

section \<open>The class on Python's int and float arguments\<close>

subsection \<open>Numbers\<close>

text \<open>
  An \<open>int\<close> is an unbounded integer. A \<open>float\<close> is a binary64 value: a finite one is
  given by the real number it stands for, the others are the two infinities and NaN.
  Both zeros are the number \<open>0\<close>: they compare equal, dividing by either raises, and no
  statement of the class tells them apart. A value \<open>Fin x\<close> is meant with \<open>x\<close> a
  double, that is \<open>round64 x = Fin x\<close>.
\<close>

datatype py_float = Fin real | PInf | NInf | NaN

datatype py_num = PyInt int | PyFloat py_float

subsection \<open>Rounding to the nearest double\<close>

text \<open>
  \<open>floor_log2 q\<close> is the exponent \<open>e\<close> with \<open>2 ^ e \<le> q < 2 ^ (e + 1)\<close>, for \<open>q > 0\<close>.
  Around \<open>q\<close> the doubles are the multiples of \<open>quantum q\<close>: 53 significant bits, and
  the exponent not below \<open>- 1022\<close>, where the subnormal numbers begin. \<open>round64\<close> takes
  a real to the nearest double, a tie to the one with the even significand; a
  magnitude of at least \<open>2 ^ 1024 - 2 ^ 970\<close>, half a step above the largest double,
  goes to an infinity.
\<close>

definition pow2 :: "int \<Rightarrow> real" where
  "pow2 e = (if 0 \<le> e then 2 ^ nat e else 1 / 2 ^ nat (- e))"

definition floor_log2 :: "real \<Rightarrow> int" where
  "floor_log2 q = (if 1 \<le> q then bitlen \<lfloor>q\<rfloor> - 1 else - bitlen (\<lceil>1 / q\<rceil> - 1))"

definition round_half_even :: "real \<Rightarrow> int" where
  "round_half_even x =
     (if x - of_int \<lfloor>x\<rfloor> < 1 / 2 then \<lfloor>x\<rfloor>
      else if 1 / 2 < x - of_int \<lfloor>x\<rfloor> then \<lfloor>x\<rfloor> + 1
      else if even \<lfloor>x\<rfloor> then \<lfloor>x\<rfloor> else \<lfloor>x\<rfloor> + 1)"

definition quantum :: "real \<Rightarrow> real" where
  "quantum q = pow2 (max (floor_log2 \<bar>q\<bar>) (- 1022) - 52)"

definition round64 :: "real \<Rightarrow> py_float" where
  "round64 q =
     (if q = 0 then Fin 0
      else if pow2 1024 - pow2 970 \<le> \<bar>q\<bar> then (if 0 < q then PInf else NInf)
      else Fin (of_int (round_half_even (q / quantum q)) * quantum q))"

subsection \<open>Subtraction, division and comparison\<close>

text \<open>
  The float operations are those of IEEE 754: the exact result, rounded. Python's float
  division first tests the divisor and raises \<open>ZeroDivisionError\<close> on a zero, whatever
  the dividend.
\<close>

fun float_sub :: "py_float \<Rightarrow> py_float \<Rightarrow> py_float" where
  "float_sub (Fin x) (Fin y) = round64 (x - y)"
| "float_sub NaN b = NaN"
| "float_sub a NaN = NaN"
| "float_sub PInf PInf = NaN"
| "float_sub NInf NInf = NaN"
| "float_sub PInf b = PInf"
| "float_sub NInf b = NInf"
| "float_sub a PInf = NInf"
| "float_sub a NInf = PInf"

fun float_div :: "py_float \<Rightarrow> py_float \<Rightarrow> py_error + py_float" where
  "float_div a (Fin y) =
     (if y = 0 then Inl ZeroDivisionError
      else Inr (case a of
                  Fin x \<Rightarrow> round64 (x / y)
                | PInf \<Rightarrow> if 0 < y then PInf else NInf
                | NInf \<Rightarrow> if 0 < y then NInf else PInf
                | NaN \<Rightarrow> NaN))"
| "float_div (Fin x) PInf = Inr (Fin 0)"
| "float_div (Fin x) NInf = Inr (Fin 0)"
| "float_div a b = Inr NaN"

text \<open>
  An \<open>int\<close> operand of a float operation is converted to the nearest double; one that
  rounds beyond the largest double raises \<open>OverflowError\<close>.
\<close>

definition int_to_float :: "int \<Rightarrow> py_error + py_float" where
  "int_to_float n = (case round64 (of_int n) of Fin r \<Rightarrow> Inr (Fin r) | _ \<Rightarrow> Inl OverflowError)"

fun to_float :: "py_num \<Rightarrow> py_error + py_float" where
  "to_float (PyFloat x) = Inr x"
| "to_float (PyInt n) = int_to_float n"

text \<open>
  Python's \<open>-\<close> and \<open>/\<close>. The difference of two ints is exact. Their quotient is the
  double nearest to the exact quotient, \<open>ZeroDivisionError\<close> on a zero divisor and
  \<open>OverflowError\<close> when the quotient rounds beyond the largest double. With a float
  on either side both operands are converted, the left one first, and the float
  operation applies.
\<close>

fun py_sub :: "py_num \<Rightarrow> py_num \<Rightarrow> py_error + py_num" where
  "py_sub (PyInt a) (PyInt b) = Inr (PyInt (a - b))"
| "py_sub a b =
     (case to_float a of
        Inl e \<Rightarrow> Inl e
      | Inr x \<Rightarrow>
          (case to_float b of
             Inl e \<Rightarrow> Inl e
           | Inr y \<Rightarrow> Inr (PyFloat (float_sub x y))))"

fun py_truediv :: "py_num \<Rightarrow> py_num \<Rightarrow> py_error + py_num" where
  "py_truediv (PyInt a) (PyInt b) =
     (if b = 0 then Inl ZeroDivisionError
      else (case round64 (of_int a / of_int b) of
              Fin r \<Rightarrow> Inr (PyFloat (Fin r))
            | _ \<Rightarrow> Inl OverflowError))"
| "py_truediv a b =
     (case to_float a of
        Inl e \<Rightarrow> Inl e
      | Inr x \<Rightarrow>
          (case to_float b of
             Inl e \<Rightarrow> Inl e
           | Inr y \<Rightarrow>
               (case float_div x y of
                  Inl e \<Rightarrow> Inl e
                | Inr z \<Rightarrow> Inr (PyFloat z))))"

text \<open>
  Python compares ints and floats by their exact values; every comparison with NaN is
  false.
\<close>

fun float_lt :: "py_float \<Rightarrow> py_float \<Rightarrow> bool" where
  "float_lt (Fin x) (Fin y) = (x < y)"
| "float_lt NaN b = False"
| "float_lt a NaN = False"
| "float_lt PInf b = False"
| "float_lt a NInf = False"
| "float_lt NInf b = True"
| "float_lt a PInf = True"

fun exact_value :: "py_num \<Rightarrow> py_float" where
  "exact_value (PyInt n) = Fin (of_int n)"
| "exact_value (PyFloat x) = x"

definition py_lt :: "py_num \<Rightarrow> py_num \<Rightarrow> bool" where
  "py_lt a b = float_lt (exact_value a) (exact_value b)"

definition py_gt :: "py_num \<Rightarrow> py_num \<Rightarrow> bool" where
  "py_gt a b = float_lt (exact_value b) (exact_value a)"

definition py_ge :: "py_num \<Rightarrow> py_num \<Rightarrow> bool" where
  "py_ge a b = (exact_value a \<noteq> NaN \<and> exact_value b \<noteq> NaN
                 \<and> \<not> float_lt (exact_value a) (exact_value b))"

text \<open>
  A decimal float literal of the source denotes the double nearest to it.
\<close>

definition float_literal :: "real \<Rightarrow> py_num" where
  "float_literal q = PyFloat (round64 q)"

subsection \<open>The object, its construction and the rule blocks\<close>

text \<open>
  \<open>__init__\<close> as above, with Python's operations: the spread is computed first,
  its subtraction before its division, then the difference of the moving averages; the
  first error ends the construction. The blocks compare the fields with the int
  literals \<open>1\<close>, \<open>70\<close>, \<open>50\<close>, \<open>30\<close> and the float literal \<open>0.015\<close>.
\<close>

record StockMarketFuzzyLogic_py =
  ma_s_py :: py_num
  ma_l_py :: py_num
  rsi_py :: py_num
  beta_stock_py :: py_num
  bid_price_py :: py_num
  ask_price_py :: py_num
  bid_ask_spread_py :: py_num
  dcm_py :: py_num

definition init_py ::
  "py_num \<Rightarrow> py_num \<Rightarrow> py_num \<Rightarrow> py_num \<Rightarrow> py_num \<Rightarrow> py_num
     \<Rightarrow> py_error + StockMarketFuzzyLogic_py" where
  "init_py ma_s' ma_l' rsi' beta_stock' bid_price' ask_price' =
     (case py_sub ask_price' bid_price' of
        Inl e \<Rightarrow> Inl e
      | Inr diff \<Rightarrow>
          (case py_truediv diff ask_price' of
             Inl e \<Rightarrow> Inl e
           | Inr spread \<Rightarrow>
               (case py_sub ma_s' ma_l' of
                  Inl e \<Rightarrow> Inl e
                | Inr delta \<Rightarrow>
                    Inr \<lparr> ma_s_py = ma_s', ma_l_py = ma_l', rsi_py = rsi',
                          beta_stock_py = beta_stock', bid_price_py = bid_price',
                          ask_price_py = ask_price', bid_ask_spread_py = spread,
                          dcm_py = delta \<rparr>)))"

definition block1_py :: "StockMarketFuzzyLogic_py \<Rightarrow> string \<times> StockMarketFuzzyLogic_py" where
  "block1_py self =
     (if py_gt (beta_stock_py self) (PyInt 1) then
        (if py_gt (bid_ask_spread_py self) (float_literal (15 / 1000))
         then (''slight'', self) else (''very'', self))
      else if py_lt (beta_stock_py self) (PyInt 1) then
        (if py_gt (bid_ask_spread_py self) (float_literal (15 / 1000))
         then (''not'', self) else (''slight'', self))
      else (''slight'', self))"

definition block2_py :: "StockMarketFuzzyLogic_py \<Rightarrow> string \<times> StockMarketFuzzyLogic_py" where
  "block2_py self =
     (if py_gt (rsi_py self) (PyInt 70) then
        (if py_lt (dcm_py self) (PyInt 1) then (''neutral'', self) else (''average buy'', self))
      else if py_gt (rsi_py self) (PyInt 50) then
        (if py_lt (dcm_py self) (PyInt 1) then (''neutral'', self) else (''strong buy'', self))
      else if py_ge (rsi_py self) (PyInt 30) then
        (if py_lt (dcm_py self) (PyInt 1) then (''strong sell'', self) else (''neutral'', self))
      else
        (if py_lt (dcm_py self) (PyInt 1) then (''average sell'', self) else (''neutral'', self)))"

definition block3_py ::
  "StockMarketFuzzyLogic_py \<Rightarrow> string option \<times> StockMarketFuzzyLogic_py" where
  "block3_py self =
     (case block1_py self of (validity_of_strategy, self1) \<Rightarrow>
        (case block2_py self1 of (strength_of_signals, self2) \<Rightarrow>
           (block3_rules validity_of_strategy strength_of_signals, self2)))"

text \<open>
  \<open>main.py\<close> again: the call of the constructor and of \<open>block3\<close>, and the script with
  its six float literals.
\<close>

definition evaluate_py ::
  "py_num \<Rightarrow> py_num \<Rightarrow> py_num \<Rightarrow> py_num \<Rightarrow> py_num \<Rightarrow> py_num
     \<Rightarrow> py_error + string option" where
  "evaluate_py ma_s' ma_l' rsi' beta_stock' bid_price' ask_price' =
     (case init_py ma_s' ma_l' rsi' beta_stock' bid_price' ask_price' of
        Inl e \<Rightarrow> Inl e
      | Inr a \<Rightarrow> Inr (fst (block3_py a)))"

definition main_py :: "py_error + string option" where
  "main_py = evaluate_py (float_literal (12764 / 100)) (float_literal (10717 / 100))
     (float_literal (5064 / 100)) (float_literal (128 / 100))
     (float_literal (13175 / 100)) (float_literal (13178 / 100))"

section \<open>Properties\<close>

subsection \<open>The sample run\<close>

text \<open>
  C1. For the sample inputs shortMA = 127.64, longMA = 107.17, oscillator = 50.64,
  beta = 1.28, bidPrice = 131.75, askPrice = 131.78 the three stages return exactly
  "high confidence buy": construction succeeds, block 1 says "very", block 2 says
  "strong buy", and block 3 on the constructed object gives the decision.
\<close>

theorem C1_sample_run:
  "main = Inr (Some ''high confidence buy'')
   \<and> evaluate 127.64 107.17 50.64 1.28 131.75 131.78 = Inr (Some ''high confidence buy'')
   \<and> (\<exists>a. init 127.64 107.17 50.64 1.28 131.75 131.78 = Inr a
          \<and> fst (block1 a) = ''very''
          \<and> fst (block2 a) = ''strong buy''
          \<and> fst (block3 a) = Some ''high confidence buy'')"
  by (simp add: main_def evaluate_def init_def truediv_def block3_def block1_def
        block2_def block3_rules_def)

subsection \<open>What the blocks can return, and what they leave behind\<close>



lemma block1_self: "snd (block1 self) = self"
  by (simp add: block1_def)

lemma block2_self: "snd (block2 self) = self"
  by (simp add: block2_def)

lemma block3_unfold:
  "block3 self = (block3_rules (fst (block1 self)) (fst (block2 self)), self)"
proof -
  obtain v s1 where b1: "block1 self = (v, s1)" by (cases "block1 self")
  obtain t s2 where b2: "block2 s1 = (t, s2)" by (cases "block2 s1")
  from b1 have s1: "s1 = self" using block1_self [of self] by simp
  from b2 s1 have s2: "s2 = self" using block2_self [of self] by simp
  from b1 b2 s1 s2 show ?thesis by (simp add: block3_def)
qed

lemma block3_rules_defined:
  assumes "v \<in> {''very'', ''slight'', ''not''}"
    and "s \<in> {''strong buy'', ''average buy'', ''neutral'', ''strong sell'', ''average sell''}"
  shows "\<exists>d. d \<in> {''high confidence buy'', ''moderate confidence buy'', ''low confidence buy'',
            ''no confidence trade'', ''high confidence sell'', ''moderate confidence sell'',
            ''low confidence sell''} \<and> block3_rules v s = Some d"
  using assms by (auto simp add: block3_rules_def)

lemma block3_self: "snd (block3 self) = self"
  by (simp add: block3_unfold)


subsection \<open>Block 2\<close>

text \<open>
  C2. For every oscillator value \<open>rsi\<close> and crossover value \<open>dcm\<close> (whatever the other
  fields hold), block 2 tests \<open>> 70\<close>, then \<open>> 50\<close>, then \<open>\<ge> 30\<close>, then falls to the last
  branch: above 70 it answers "neutral" when \<open>dcm < 1\<close> and "average buy" otherwise; above
  50 and up to 70, "neutral" or "strong buy"; from 30 up to 50, "strong sell" or "neutral";
  below 30, "average sell" or "neutral". So exactly 70 is in the \<open>> 50\<close> band, exactly 50
  and exactly 30 are in the \<open>\<ge> 30\<close> band, and \<open>rsi = 30\<close>, \<open>dcm = 0.5\<close> gives "strong sell".
\<close>

theorem C2_block2_bands:
  "(rsi self > 70 \<longrightarrow>
      fst (block2 self) = (if dcm self < 1 then ''neutral'' else ''average buy''))
   \<and> (rsi self \<le> 70 \<and> rsi self > 50 \<longrightarrow>
      fst (block2 self) = (if dcm self < 1 then ''neutral'' else ''strong buy''))
   \<and> (rsi self \<le> 50 \<and> rsi self \<ge> 30 \<longrightarrow>
      fst (block2 self) = (if dcm self < 1 then ''strong sell'' else ''neutral''))
   \<and> (rsi self < 30 \<longrightarrow>
      fst (block2 self) = (if dcm self < 1 then ''average sell'' else ''neutral''))
   \<and> (rsi self = 70 \<longrightarrow>
      fst (block2 self) = (if dcm self < 1 then ''neutral'' else ''strong buy''))
   \<and> (rsi self = 50 \<longrightarrow>
      fst (block2 self) = (if dcm self < 1 then ''strong sell'' else ''neutral''))
   \<and> (rsi self = 30 \<longrightarrow>
      fst (block2 self) = (if dcm self < 1 then ''strong sell'' else ''neutral''))
   \<and> (rsi self = 30 \<and> dcm self = 0.5 \<longrightarrow> fst (block2 self) = ''strong sell'')"
  by (simp add: block2_def)

theorem C2_block2_bands_witness:
  "fst (block2 \<lparr> ma_s = 3, ma_l = 1, rsi = 75, beta_stock = 1, bid_price = 99,
                  ask_price = 100, bid_ask_spread = 0.01, dcm = 2 \<rparr>) = ''average buy''
   \<and> fst (block2 \<lparr> ma_s = 3, ma_l = 1, rsi = 70, beta_stock = 1, bid_price = 99,
                  ask_price = 100, bid_ask_spread = 0.01, dcm = 2 \<rparr>) = ''strong buy''
   \<and> fst (block2 \<lparr> ma_s = 3, ma_l = 1, rsi = 50, beta_stock = 1, bid_price = 99,
                  ask_price = 100, bid_ask_spread = 0.01, dcm = 2 \<rparr>) = ''neutral''
   \<and> fst (block2 \<lparr> ma_s = 1.5, ma_l = 1, rsi = 30, beta_stock = 1, bid_price = 99,
                  ask_price = 100, bid_ask_spread = 0.01, dcm = 0.5 \<rparr>) = ''strong sell''
   \<and> fst (block2 \<lparr> ma_s = 1.5, ma_l = 1, rsi = 29, beta_stock = 1, bid_price = 99,
                  ask_price = 100, bid_ask_spread = 0.01, dcm = 0.5 \<rparr>) = ''average sell''"
  using
    C2_block2_bands [of "\<lparr> ma_s = 3, ma_l = 1, rsi = 75, beta_stock = 1, bid_price = 99,
                  ask_price = 100, bid_ask_spread = 0.01, dcm = 2 \<rparr>"]
    C2_block2_bands [of "\<lparr> ma_s = 3, ma_l = 1, rsi = 70, beta_stock = 1, bid_price = 99,
                  ask_price = 100, bid_ask_spread = 0.01, dcm = 2 \<rparr>"]
    C2_block2_bands [of "\<lparr> ma_s = 3, ma_l = 1, rsi = 50, beta_stock = 1, bid_price = 99,
                  ask_price = 100, bid_ask_spread = 0.01, dcm = 2 \<rparr>"]
    C2_block2_bands [of "\<lparr> ma_s = 1.5, ma_l = 1, rsi = 30, beta_stock = 1, bid_price = 99,
                  ask_price = 100, bid_ask_spread = 0.01, dcm = 0.5 \<rparr>"]
    C2_block2_bands [of "\<lparr> ma_s = 1.5, ma_l = 1, rsi = 29, beta_stock = 1, bid_price = 99,
                  ask_price = 100, bid_ask_spread = 0.01, dcm = 0.5 \<rparr>"]
  by simp

subsection \<open>Block 1\<close>

text \<open>
  C3. For every \<open>beta_stock\<close> and \<open>bid_ask_spread\<close>, block 1 answers "very" when
  \<open>beta > 1\<close> and the spread is at most 0.015, "slight" when \<open>beta > 1\<close> and the spread is
  above 0.015, "not" when \<open>beta < 1\<close> and the spread is above 0.015, "slight" when
  \<open>beta < 1\<close> and the spread is at most 0.015, and "slight" when \<open>beta = 1\<close>, whatever the
  spread.
\<close>

theorem C3_block1_table:
  "(beta_stock self > 1 \<and> bid_ask_spread self \<le> 0.015 \<longrightarrow> fst (block1 self) = ''very'')
   \<and> (beta_stock self > 1 \<and> bid_ask_spread self > 0.015 \<longrightarrow> fst (block1 self) = ''slight'')
   \<and> (beta_stock self < 1 \<and> bid_ask_spread self > 0.015 \<longrightarrow> fst (block1 self) = ''not'')
   \<and> (beta_stock self < 1 \<and> bid_ask_spread self \<le> 0.015 \<longrightarrow> fst (block1 self) = ''slight'')
   \<and> (beta_stock self = 1 \<longrightarrow> fst (block1 self) = ''slight'')"
  by (simp add: block1_def)

theorem C3_block1_table_witness:
  "fst (block1 \<lparr> ma_s = 3, ma_l = 1, rsi = 60, beta_stock = 2, bid_price = 99,
                  ask_price = 100, bid_ask_spread = 0.01, dcm = 2 \<rparr>) = ''very''
   \<and> fst (block1 \<lparr> ma_s = 3, ma_l = 1, rsi = 60, beta_stock = 2, bid_price = 98,
                  ask_price = 100, bid_ask_spread = 0.02, dcm = 2 \<rparr>) = ''slight''
   \<and> fst (block1 \<lparr> ma_s = 3, ma_l = 1, rsi = 60, beta_stock = 0.5, bid_price = 98,
                  ask_price = 100, bid_ask_spread = 0.02, dcm = 2 \<rparr>) = ''not''
   \<and> fst (block1 \<lparr> ma_s = 3, ma_l = 1, rsi = 60, beta_stock = 0.5, bid_price = 99,
                  ask_price = 100, bid_ask_spread = 0.01, dcm = 2 \<rparr>) = ''slight''
   \<and> fst (block1 \<lparr> ma_s = 3, ma_l = 1, rsi = 60, beta_stock = 1, bid_price = 98,
                  ask_price = 100, bid_ask_spread = 0.02, dcm = 2 \<rparr>) = ''slight''"
  using
    C3_block1_table [of "\<lparr> ma_s = 3, ma_l = 1, rsi = 60, beta_stock = 2, bid_price = 99,
                  ask_price = 100, bid_ask_spread = 0.01, dcm = 2 \<rparr>"]
    C3_block1_table [of "\<lparr> ma_s = 3, ma_l = 1, rsi = 60, beta_stock = 2, bid_price = 98,
                  ask_price = 100, bid_ask_spread = 0.02, dcm = 2 \<rparr>"]
    C3_block1_table [of "\<lparr> ma_s = 3, ma_l = 1, rsi = 60, beta_stock = 0.5, bid_price = 98,
                  ask_price = 100, bid_ask_spread = 0.02, dcm = 2 \<rparr>"]
    C3_block1_table [of "\<lparr> ma_s = 3, ma_l = 1, rsi = 60, beta_stock = 0.5, bid_price = 99,
                  ask_price = 100, bid_ask_spread = 0.01, dcm = 2 \<rparr>"]
    C3_block1_table [of "\<lparr> ma_s = 3, ma_l = 1, rsi = 60, beta_stock = 1, bid_price = 98,
                  ask_price = 100, bid_ask_spread = 0.02, dcm = 2 \<rparr>"]
  by simp

subsection \<open>Block 3\<close>

text \<open>
  C4. On every pair of a validity label in very, slight, not and a strength label in
  strong buy, average buy, neutral, strong sell, average sell, the conditional of block 3
  returns a value (never \<open>None\<close>), and that value is the one of the decision table: the
  five entries of "very", the five entries of "slight", and "no confidence trade" for
  "not" with every strength.
\<close>

theorem C4_block3_rules_table:
  "block3_rules ''very'' ''strong buy'' = Some ''high confidence buy''
   \<and> block3_rules ''very'' ''average buy'' = Some ''moderate confidence buy''
   \<and> block3_rules ''very'' ''neutral'' = Some ''no confidence trade''
   \<and> block3_rules ''very'' ''strong sell'' = Some ''high confidence sell''
   \<and> block3_rules ''very'' ''average sell'' = Some ''moderate confidence sell''
   \<and> block3_rules ''slight'' ''strong buy'' = Some ''moderate confidence buy''
   \<and> block3_rules ''slight'' ''average buy'' = Some ''low confidence buy''
   \<and> block3_rules ''slight'' ''neutral'' = Some ''no confidence trade''
   \<and> block3_rules ''slight'' ''strong sell'' = Some ''moderate confidence sell''
   \<and> block3_rules ''slight'' ''average sell'' = Some ''low confidence sell''
   \<and> (\<forall>s. block3_rules ''not'' s = Some ''no confidence trade'')
   \<and> (\<forall>v \<in> {''very'', ''slight'', ''not''}.
        \<forall>s \<in> {''strong buy'', ''average buy'', ''neutral'', ''strong sell'', ''average sell''}.
          block3_rules v s \<noteq> None)"
  by (simp add: block3_rules_def)

theorem C4_block3_rules_table_witness:
  "''slight'' \<in> {''very'', ''slight'', ''not''}
   \<and> ''average sell'' \<in> {''strong buy'', ''average buy'', ''neutral'', ''strong sell'', ''average sell''}
   \<and> block3_rules ''slight'' ''average sell'' \<noteq> None
   \<and> block3_rules ''slight'' ''average sell'' = Some ''low confidence sell''"
  using C4_block3_rules_table by simp

subsection \<open>The decision is always one of the seven\<close>



subsection \<open>The blocks do not change the object\<close>

text \<open>
  C7. On every object, each of block 1, block 2 and block 3 leaves the object as it was
  (all eight fields: the six indicators, \<open>bid_ask_spread\<close> and \<open>dcm\<close>), and calling the
  same block a second time, on the object the first call left, returns the same result.
\<close>

theorem C7_blocks_pure:
  "snd (block1 self) = self \<and> snd (block2 self) = self \<and> snd (block3 self) = self
   \<and> fst (block1 (snd (block1 self))) = fst (block1 self)
   \<and> fst (block2 (snd (block2 self))) = fst (block2 self)
   \<and> fst (block3 (snd (block3 self))) = fst (block3 self)
   \<and> block3 (snd (block3 self)) = block3 self"
  by (simp add: block1_self block2_self block3_self)

subsection \<open>The decision depends on the derived values only\<close>



subsection \<open>Every decision is reachable\<close>

text \<open>
  C10. Each of the seven decision strings (high, moderate and low confidence buy, no
  confidence trade, high, moderate and low confidence sell) is returned by block 3 on
  the object constructed from some six inputs with \<open>ask_price \<noteq> 0\<close>.
\<close>

theorem C10_all_decisions_reachable:
  "(\<exists>m l r b bp ap. ap \<noteq> 0 \<and> evaluate m l r b bp ap = Inr (Some ''high confidence buy''))
   \<and> (\<exists>m l r b bp ap. ap \<noteq> 0 \<and> evaluate m l r b bp ap = Inr (Some ''moderate confidence buy''))
   \<and> (\<exists>m l r b bp ap. ap \<noteq> 0 \<and> evaluate m l r b bp ap = Inr (Some ''low confidence buy''))
   \<and> (\<exists>m l r b bp ap. ap \<noteq> 0 \<and> evaluate m l r b bp ap = Inr (Some ''no confidence trade''))
   \<and> (\<exists>m l r b bp ap. ap \<noteq> 0 \<and> evaluate m l r b bp ap = Inr (Some ''high confidence sell''))
   \<and> (\<exists>m l r b bp ap. ap \<noteq> 0 \<and> evaluate m l r b bp ap = Inr (Some ''moderate confidence sell''))
   \<and> (\<exists>m l r b bp ap. ap \<noteq> 0 \<and> evaluate m l r b bp ap = Inr (Some ''low confidence sell''))"
proof -
  note defs = evaluate_def init_def truediv_def block3_def block1_def block2_def
    block3_rules_def
  have "(100::real) \<noteq> 0 \<and> evaluate 3 1 60 2 99 100 = Inr (Some ''high confidence buy'')"
    by (simp add: defs)
  then have 1: "\<exists>m l r b bp ap. ap \<noteq> 0 \<and> evaluate m l r b bp ap = Inr (Some ''high confidence buy'')"
    by blast
  have "(100::real) \<noteq> 0 \<and> evaluate 3 1 80 2 99 100 = Inr (Some ''moderate confidence buy'')"
    by (simp add: defs)
  then have 2: "\<exists>m l r b bp ap. ap \<noteq> 0 \<and> evaluate m l r b bp ap = Inr (Some ''moderate confidence buy'')"
    by blast
  have "(100::real) \<noteq> 0 \<and> evaluate 3 1 80 1 99 100 = Inr (Some ''low confidence buy'')"
    by (simp add: defs)
  then have 3: "\<exists>m l r b bp ap. ap \<noteq> 0 \<and> evaluate m l r b bp ap = Inr (Some ''low confidence buy'')"
    by blast
  have "(100::real) \<noteq> 0 \<and> evaluate 1 1 80 1 99 100 = Inr (Some ''no confidence trade'')"
    by (simp add: defs)
  then have 4: "\<exists>m l r b bp ap. ap \<noteq> 0 \<and> evaluate m l r b bp ap = Inr (Some ''no confidence trade'')"
    by blast
  have "(100::real) \<noteq> 0 \<and> evaluate 1 1 40 2 99 100 = Inr (Some ''high confidence sell'')"
    by (simp add: defs)
  then have 5: "\<exists>m l r b bp ap. ap \<noteq> 0 \<and> evaluate m l r b bp ap = Inr (Some ''high confidence sell'')"
    by blast
  have "(100::real) \<noteq> 0 \<and> evaluate 1 1 20 2 99 100 = Inr (Some ''moderate confidence sell'')"
    by (simp add: defs)
  then have 6: "\<exists>m l r b bp ap. ap \<noteq> 0 \<and> evaluate m l r b bp ap = Inr (Some ''moderate confidence sell'')"
    by blast
  have "(100::real) \<noteq> 0 \<and> evaluate 1 1 20 1 99 100 = Inr (Some ''low confidence sell'')"
    by (simp add: defs)
  then have 7: "\<exists>m l r b bp ap. ap \<noteq> 0 \<and> evaluate m l r b bp ap = Inr (Some ''low confidence sell'')"
    by blast
  from 1 2 3 4 5 6 7 show ?thesis by (intro conjI)
qed

section \<open>Properties of the constructor on Python's numbers\<close>

subsection \<open>Rounding\<close>

lemma pow2_power_int: "pow2 e = power_int 2 e"
  by (simp add: pow2_def power_int_def power_one_over inverse_eq_divide)

lemma pow2_pos: "0 < pow2 e"
  by (simp add: pow2_power_int)

lemma pow2_mono: "a \<le> b \<Longrightarrow> pow2 a \<le> pow2 b"
  by (simp add: pow2_power_int power_int_increasing)

lemma pow2_minus: "pow2 (- e) = 1 / pow2 e"
  by (simp add: pow2_power_int power_int_minus inverse_eq_divide)

lemma floor_log2_ge_one:
  assumes "1 \<le> q"
  shows "0 \<le> floor_log2 q" and "pow2 (floor_log2 q) \<le> q"
proof -
  from assms have pos: "0 < \<lfloor>q\<rfloor>" by linarith
  then have b1: "1 \<le> bitlen \<lfloor>q\<rfloor>"
    using bitlen_eq_zero_iff [of "\<lfloor>q\<rfloor>"] bitlen_nonneg [of "\<lfloor>q\<rfloor>"] by linarith
  from assms have fl: "floor_log2 q = bitlen \<lfloor>q\<rfloor> - 1" by (simp add: floor_log2_def)
  from b1 fl show "0 \<le> floor_log2 q" by simp
  from bitlen_bounds [OF pos] have "(2::int) ^ nat (bitlen \<lfloor>q\<rfloor> - 1) \<le> \<lfloor>q\<rfloor>" by simp
  then have "real_of_int (2 ^ nat (bitlen \<lfloor>q\<rfloor> - 1)) \<le> real_of_int \<lfloor>q\<rfloor>"
    by (simp only: of_int_le_iff)
  also have "\<dots> \<le> q" by simp
  finally have "(2::real) ^ nat (bitlen \<lfloor>q\<rfloor> - 1) \<le> q" by simp
  with b1 fl show "pow2 (floor_log2 q) \<le> q" by (simp add: pow2_def)
qed

text \<open>
  \<open>floor_log2\<close> is the exponent of its argument: the whole part of its binary
  logarithm.
\<close>

lemma floor_log2_bounds:
  assumes "0 < q"
  shows "pow2 (floor_log2 q) \<le> q \<and> q < pow2 (floor_log2 q + 1)"
proof (cases "1 \<le> q")
  case True
  then have pos: "0 < \<lfloor>q\<rfloor>" by linarith
  then have b1: "1 \<le> bitlen \<lfloor>q\<rfloor>"
    using bitlen_eq_zero_iff [of "\<lfloor>q\<rfloor>"] bitlen_nonneg [of "\<lfloor>q\<rfloor>"] by linarith
  from True have fl: "floor_log2 q = bitlen \<lfloor>q\<rfloor> - 1" by (simp add: floor_log2_def)
  from bitlen_bounds [OF pos] have "\<lfloor>q\<rfloor> + 1 \<le> 2 ^ nat (bitlen \<lfloor>q\<rfloor>)" by simp
  then have "real_of_int (\<lfloor>q\<rfloor> + 1) \<le> real_of_int (2 ^ nat (bitlen \<lfloor>q\<rfloor>))"
    by (simp only: of_int_le_iff)
  moreover have "q < real_of_int (\<lfloor>q\<rfloor> + 1)" by linarith
  ultimately have "q < real_of_int (2 ^ nat (bitlen \<lfloor>q\<rfloor>))" by linarith
  with b1 fl have "q < pow2 (floor_log2 q + 1)" by (simp add: pow2_def)
  with floor_log2_ge_one(2) [OF True] show ?thesis by simp
next
  case False
  with assms have x1: "1 < 1 / q" by simp
  define m where "m = \<lceil>1 / q\<rceil>"
  define k where "k = bitlen (m - 1)"
  from x1 have m2: "2 \<le> m" unfolding m_def by linarith
  then have pos: "0 < m - 1" by simp
  then have k1: "1 \<le> k"
    using bitlen_eq_zero_iff [of "m - 1"] bitlen_nonneg [of "m - 1"] unfolding k_def by linarith
  from False have fl: "floor_log2 q = - k" by (simp add: floor_log2_def k_def m_def)
  from bitlen_bounds [OF pos] have lo: "2 ^ nat (k - 1) \<le> m - 1" and hi: "m \<le> 2 ^ nat k"
    unfolding k_def by simp_all
  have "real_of_int m - 1 < 1 / q" unfolding m_def by linarith
  moreover from lo have "real_of_int (2 ^ nat (k - 1)) \<le> real_of_int (m - 1)"
    by (simp only: of_int_le_iff)
  ultimately have a: "pow2 (k - 1) < 1 / q" using k1 by (simp add: pow2_def)
  have "1 / q \<le> real_of_int m" unfolding m_def by linarith
  moreover from hi have "real_of_int m \<le> real_of_int (2 ^ nat k)" by (simp only: of_int_le_iff)
  moreover from k1 have "pow2 k = real_of_int (2 ^ nat k)" by (simp add: pow2_def)
  ultimately have b: "1 / q \<le> pow2 k" by linarith
  from b assms pow2_pos [of k] have "1 / pow2 k \<le> q"
    by (simp add: field_simps)
  then have lower: "pow2 (- k) \<le> q" by (simp add: pow2_minus)
  from a assms pow2_pos [of "k - 1"] have "q < 1 / pow2 (k - 1)"
    by (simp add: field_simps)
  moreover have "pow2 (- k + 1) = 1 / pow2 (k - 1)"
    using pow2_minus [of "k - 1"] by (simp add: algebra_simps)
  ultimately have upper: "q < pow2 (- k + 1)" by simp
  from lower upper fl show ?thesis by simp
qed

lemma quantum_pos: "0 < quantum q"
  by (simp add: quantum_def pow2_pos)

lemma quantum_le:
  assumes "1 \<le> \<bar>q\<bar>"
  shows "quantum q \<le> \<bar>q\<bar>"
proof -
  from floor_log2_ge_one [OF assms] have nn: "0 \<le> floor_log2 \<bar>q\<bar>"
    and le: "pow2 (floor_log2 \<bar>q\<bar>) \<le> \<bar>q\<bar>" by simp_all
  from nn have "quantum q = pow2 (floor_log2 \<bar>q\<bar> - 52)" by (simp add: quantum_def max_def)
  also have "\<dots> \<le> pow2 (floor_log2 \<bar>q\<bar>)" by (rule pow2_mono) simp
  finally show ?thesis using le by simp
qed

lemma round_half_even_cases:
  "round_half_even x = \<lfloor>x\<rfloor> \<or> round_half_even x = \<lfloor>x\<rfloor> + 1"
  by (simp add: round_half_even_def)

lemma round_half_even_int: "round_half_even (of_int n) = n"
  by (simp add: round_half_even_def)

lemma round_half_even_near: "\<bar>of_int (round_half_even x) - x\<bar> \<le> 1 / 2"
proof -
  have d: "0 \<le> x - of_int \<lfloor>x\<rfloor>" "x - of_int \<lfloor>x\<rfloor> < 1" by linarith+
  consider "x - of_int \<lfloor>x\<rfloor> < 1 / 2" | "1 / 2 < x - of_int \<lfloor>x\<rfloor>"
    | "x - of_int \<lfloor>x\<rfloor> = 1 / 2" by linarith
  then show ?thesis
  proof cases
    case 1
    then have "round_half_even x = \<lfloor>x\<rfloor>" by (simp add: round_half_even_def)
    with 1 d show ?thesis by linarith
  next
    case 2
    then have "round_half_even x = \<lfloor>x\<rfloor> + 1" by (simp add: round_half_even_def)
    then have "real_of_int (round_half_even x) = of_int \<lfloor>x\<rfloor> + 1" by simp
    with 2 d show ?thesis by linarith
  next
    case 3
    from round_half_even_cases [of x]
    have "real_of_int (round_half_even x) = of_int \<lfloor>x\<rfloor>
        \<or> real_of_int (round_half_even x) = of_int \<lfloor>x\<rfloor> + 1" by auto
    with 3 show ?thesis by linarith
  qed
qed

text \<open>
  A finite result of \<open>round64\<close> is within half a quantum of the number rounded, the
  result is finite exactly below the overflow threshold, and a number of magnitude at
  least \<open>1\<close>, so every nonzero int, is not rounded to zero.
\<close>

lemma round64_near:
  assumes "round64 q = Fin r"
  shows "\<bar>r - q\<bar> \<le> quantum q / 2"
proof (cases "q = 0")
  case True
  with assms quantum_pos [of q] show ?thesis by (simp add: round64_def less_imp_le)
next
  case False
  with assms have r: "r = of_int (round_half_even (q / quantum q)) * quantum q"
    by (auto simp add: round64_def split: if_splits)
  from quantum_pos [of q] have "r - q = (of_int (round_half_even (q / quantum q)) - q / quantum q) * quantum q"
    by (simp add: r algebra_simps)
  then have "\<bar>r - q\<bar> = \<bar>of_int (round_half_even (q / quantum q)) - q / quantum q\<bar> * quantum q"
    using quantum_pos [of q] by (simp add: abs_mult)
  also have "\<dots> \<le> (1 / 2) * quantum q"
    using round_half_even_near [of "q / quantum q"] quantum_pos [of q]
    by (intro mult_right_mono) simp_all
  finally show ?thesis by simp
qed

lemma round64_finite:
  "(\<exists>r. round64 q = Fin r) = (\<bar>q\<bar> < pow2 1024 - pow2 970)"
proof -
  have "0 < pow2 1024 - pow2 970" by (simp add: pow2_def)
  then show ?thesis by (auto simp add: round64_def)
qed

lemma round_half_even_nonzero:
  assumes "1 \<le> \<bar>x\<bar>"
  shows "round_half_even x \<noteq> 0"
proof (cases "1 \<le> x")
  case True
  then have "1 \<le> \<lfloor>x\<rfloor>" by linarith
  with round_half_even_cases [of x] show ?thesis by linarith
next
  case False
  with assms have x: "x \<le> - 1" by linarith
  show ?thesis
  proof (cases "x = - 1")
    case True
    have "round_half_even (of_int (- 1)) = - 1" by (rule round_half_even_int)
    with True show ?thesis by simp
  next
    case False
    with x have "x < - 1" by simp
    then have "\<lfloor>x\<rfloor> \<le> - 2" by linarith
    with round_half_even_cases [of x] show ?thesis by linarith
  qed
qed

lemma round64_nonzero:
  assumes "1 \<le> \<bar>q\<bar>"
  shows "round64 q \<noteq> Fin 0"
proof -
  from assms have q0: "q \<noteq> 0" by auto
  from quantum_le [OF assms] quantum_pos [of q] have "1 \<le> \<bar>q\<bar> / quantum q"
    by (simp add: le_divide_eq)
  then have "1 \<le> \<bar>q / quantum q\<bar>" using quantum_pos [of q] by (simp add: abs_divide)
  from round_half_even_nonzero [OF this] quantum_pos [of q]
  have "real_of_int (round_half_even (q / quantum q)) * quantum q \<noteq> 0" by simp
  with q0 show ?thesis by (simp add: round64_def)
qed

lemma int_to_float_zero: "(int_to_float n = Inr (Fin 0)) = (n = 0)"
proof (cases "n = 0")
  case True
  then show ?thesis by (simp add: int_to_float_def round64_def)
next
  case False
  then have "1 \<le> \<bar>real_of_int n\<bar>" 
    by (metis of_int_abs of_int_le_iff of_int_1 zero_less_abs_iff zless_imp_add1_zle add.left_neutral)
  from round64_nonzero [OF this] False show ?thesis
    by (auto simp add: int_to_float_def split: py_float.splits)
qed

subsection \<open>The errors of the operations\<close>

lemma to_float_zero: "(to_float a = Inr (Fin 0)) = (a = PyInt 0 \<or> a = PyFloat (Fin 0))"
  by (cases a) (simp_all add: int_to_float_zero)

lemma int_to_float_error: "int_to_float n = Inl e \<Longrightarrow> e = OverflowError"
  by (auto simp add: int_to_float_def split: py_float.splits)

lemma to_float_error: "to_float a = Inl e \<Longrightarrow> e = OverflowError"
  by (cases a) (auto simp add: int_to_float_def split: py_float.splits)

lemma float_div_zero: "(float_div x y = Inl e) = (y = Fin 0 \<and> e = ZeroDivisionError)"
  by (cases "(x, y)" rule: float_div.cases) auto

lemma py_sub_error: "py_sub a b = Inl e \<Longrightarrow> e = OverflowError"
  by (cases "(a, b)" rule: py_sub.cases) (auto split: sum.splits dest: to_float_error int_to_float_error)

lemma py_truediv_ZeroDivisionError:
  assumes "py_truediv a b = Inl ZeroDivisionError"
  shows "b = PyInt 0 \<or> b = PyFloat (Fin 0)"
proof (cases a)
  case (PyInt m)
  show ?thesis
  proof (cases b)
    case (PyInt n)
    with assms \<open>a = PyInt m\<close> show ?thesis by (auto split: if_splits py_float.splits)
  next
    case (PyFloat y)
    with assms \<open>a = PyInt m\<close> to_float_zero [of b] show ?thesis
      by (auto simp add: float_div_zero split: sum.splits dest: to_float_error int_to_float_error)
  qed
next
  case (PyFloat x)
  with assms to_float_zero [of b] show ?thesis
    by (auto simp add: float_div_zero split: sum.splits dest: to_float_error int_to_float_error)
qed

lemma py_truediv_zero:
  assumes "b = PyInt 0 \<or> b = PyFloat (Fin 0)"
  shows "py_truediv a b = Inl ZeroDivisionError \<or> py_truediv a b = Inl OverflowError"
proof -
  from assms have z: "to_float b = Inr (Fin 0)" by (simp add: to_float_zero)
  show ?thesis
  proof (cases a)
    case (PyInt m)
    show ?thesis
    proof (cases b)
      case (PyInt n)
      with assms \<open>a = PyInt m\<close> show ?thesis by auto
    next
      case (PyFloat y)
      with z \<open>a = PyInt m\<close> show ?thesis by (auto split: sum.splits dest: to_float_error int_to_float_error)
    qed
  next
    case (PyFloat x)
    with z show ?thesis by (auto split: sum.splits)
  qed
qed

lemma py_truediv_float:
  "py_truediv (PyFloat x) (PyFloat y) =
     (if y = Fin 0 then Inl ZeroDivisionError
      else (case float_div x y of Inl e \<Rightarrow> Inl e | Inr z \<Rightarrow> Inr (PyFloat z)))"
  by (cases "float_div x y") (auto simp add: float_div_zero)

subsection \<open>The blocks on Python's numbers\<close>

text \<open>
  As on the exact numbers: the blocks leave the object as it is, they answer their
  labels only, and \<open>block3\<close> returns one of the seven decisions on every object,
  whatever its fields hold (infinities and NaN included).
\<close>

lemma block1_py_self: "snd (block1_py self) = self"
  by (simp add: block1_py_def)

lemma block2_py_self: "snd (block2_py self) = self"
  by (simp add: block2_py_def)

lemma block3_py_unfold:
  "block3_py self = (block3_rules (fst (block1_py self)) (fst (block2_py self)), self)"
proof -
  obtain v s1 where b1: "block1_py self = (v, s1)" by (cases "block1_py self")
  obtain t s2 where b2: "block2_py s1 = (t, s2)" by (cases "block2_py s1")
  from b1 have s1: "s1 = self" using block1_py_self [of self] by simp
  from b2 s1 have s2: "s2 = self" using block2_py_self [of self] by simp
  from b1 b2 s1 s2 show ?thesis by (simp add: block3_py_def)
qed

lemma block3_py_self: "snd (block3_py self) = self"
  by (simp add: block3_py_unfold)

lemma block1_py_labels: "fst (block1_py self) \<in> {''very'', ''slight'', ''not''}"
  by (simp add: block1_py_def)

lemma block2_py_labels:
  "fst (block2_py self) \<in> {''strong buy'', ''average buy'', ''neutral'', ''strong sell'', ''average sell''}"
  by (simp add: block2_py_def)

lemma block3_py_defined:
  "\<exists>d. d \<in> {''high confidence buy'', ''moderate confidence buy'', ''low confidence buy'',
          ''no confidence trade'', ''high confidence sell'', ''moderate confidence sell'',
          ''low confidence sell''} \<and> fst (block3_py self) = Some d"
  using block3_rules_defined [OF block1_py_labels block2_py_labels, of self self]
  by (simp add: block3_py_unfold)

subsection \<open>Evaluation\<close>

lemmas float_eval = round64_def quantum_def floor_log2_def round_half_even_def pow2_def
  compute_bitlen float_literal_def

lemmas blocks_py_eval = evaluate_py_def block3_py_def block1_py_def block2_py_def block3_rules_def
  py_gt_def py_lt_def py_ge_def

text \<open>
  The run of \<open>main.py\<close> on Python's numbers gives the decision of the sample run on
  the exact numbers.
\<close>

lemma main_py_run: "main_py = Inr (Some ''high confidence buy'')"
  by (simp add: main_py_def init_py_def blocks_py_eval float_eval)

subsection \<open>Construction and the zero ask price\<close>

text \<open>
  C6, as it holds of the code. With \<open>ask_price == 0\<close> (the int \<open>0\<close> or a float zero)
  construction never succeeds: it raises \<open>ZeroDivisionError\<close>, or \<open>OverflowError\<close> when
  an int operand is too large for a float, and produces no object and no spread value.
  \<open>ZeroDivisionError\<close> is raised only with \<open>ask_price == 0\<close>. The caller does not catch
  the error: it ends with the error the constructor raised. With float arguments
  construction fails exactly when \<open>ask_price == 0\<close>. With int arguments it raises
  \<open>ZeroDivisionError\<close> exactly when \<open>ask_price == 0\<close>, and with \<open>ask_price \<noteq> 0\<close> it
  succeeds exactly when the quotient \<open>(ask_price - bid_price) / ask_price\<close> is below
  \<open>2 ^ 1024 - 2 ^ 970\<close> in magnitude and raises \<open>OverflowError\<close> otherwise.
\<close>

theorem C6_construction_errors:
  "(ask_price' \<in> {PyInt 0, PyFloat (Fin 0)} \<longrightarrow>
      init_py ma_s' ma_l' rsi' beta_stock' bid_price' ask_price'
        \<in> {Inl ZeroDivisionError, Inl OverflowError})
   \<and> (init_py ma_s' ma_l' rsi' beta_stock' bid_price' ask_price' = Inl ZeroDivisionError \<longrightarrow>
      ask_price' \<in> {PyInt 0, PyFloat (Fin 0)})
   \<and> (evaluate_py ma_s' ma_l' rsi' beta_stock' bid_price' ask_price' = Inl e)
       = (init_py ma_s' ma_l' rsi' beta_stock' bid_price' ask_price' = Inl e)
   \<and> (init_py (PyFloat fs) (PyFloat fl) (PyFloat fr) (PyFloat fb) (PyFloat fbid) (PyFloat fask)
         = Inl ZeroDivisionError) = (fask = Fin 0)
   \<and> (\<exists>a. init_py (PyFloat fs) (PyFloat fl) (PyFloat fr) (PyFloat fb) (PyFloat fbid)
         (PyFloat fask) = Inr a) = (fask \<noteq> Fin 0)
   \<and> (init_py (PyInt ns) (PyInt nl) (PyInt nr) (PyInt nb) (PyInt nbid) (PyInt nask)
         = Inl ZeroDivisionError) = (nask = 0)
   \<and> (init_py (PyInt ns) (PyInt nl) (PyInt nr) (PyInt nb) (PyInt nbid) (PyInt nask)
         = Inl OverflowError)
       = (nask \<noteq> 0 \<and> pow2 1024 - pow2 970 \<le> \<bar>of_int (nask - nbid) / of_int nask\<bar>)
   \<and> (\<exists>a. init_py (PyInt ns) (PyInt nl) (PyInt nr) (PyInt nb) (PyInt nbid) (PyInt nask) = Inr a)
       = (nask \<noteq> 0 \<and> \<bar>of_int (nask - nbid) / of_int nask\<bar> < pow2 1024 - pow2 970)"
proof (intro conjI impI)
  assume z: "ask_price' \<in> {PyInt 0, PyFloat (Fin 0)}"
  show "init_py ma_s' ma_l' rsi' beta_stock' bid_price' ask_price'
        \<in> {Inl ZeroDivisionError, Inl OverflowError}"
  proof (cases "py_sub ask_price' bid_price'")
    case (Inl e)
    then show ?thesis using py_sub_error [OF Inl] by (simp add: init_py_def)
  next
    case (Inr d)
    from z have "ask_price' = PyInt 0 \<or> ask_price' = PyFloat (Fin 0)" by simp
    from py_truediv_zero [OF this, of d] Inr show ?thesis by (auto simp add: init_py_def)
  qed
next
  assume "init_py ma_s' ma_l' rsi' beta_stock' bid_price' ask_price' = Inl ZeroDivisionError"
  then show "ask_price' \<in> {PyInt 0, PyFloat (Fin 0)}"
    by (auto simp add: init_py_def split: sum.splits
        dest: py_sub_error py_truediv_ZeroDivisionError)
next
  show "(evaluate_py ma_s' ma_l' rsi' beta_stock' bid_price' ask_price' = Inl e)
       = (init_py ma_s' ma_l' rsi' beta_stock' bid_price' ask_price' = Inl e)"
    by (simp add: evaluate_py_def split: sum.splits)
next
  show "(init_py (PyFloat fs) (PyFloat fl) (PyFloat fr) (PyFloat fb) (PyFloat fbid) (PyFloat fask)
         = Inl ZeroDivisionError) = (fask = Fin 0)"
    by (auto simp add: init_py_def py_truediv_float float_div_zero split: sum.splits)
next
  show "(\<exists>a. init_py (PyFloat fs) (PyFloat fl) (PyFloat fr) (PyFloat fb) (PyFloat fbid)
         (PyFloat fask) = Inr a) = (fask \<noteq> Fin 0)"
    by (auto simp add: init_py_def py_truediv_float float_div_zero split: sum.splits)
next
  show "(init_py (PyInt ns) (PyInt nl) (PyInt nr) (PyInt nb) (PyInt nbid) (PyInt nask)
         = Inl ZeroDivisionError) = (nask = 0)"
    by (auto simp add: init_py_def split: py_float.splits)
next
  show "(init_py (PyInt ns) (PyInt nl) (PyInt nr) (PyInt nb) (PyInt nbid) (PyInt nask)
         = Inl OverflowError)
       = (nask \<noteq> 0 \<and> pow2 1024 - pow2 970 \<le> \<bar>of_int (nask - nbid) / of_int nask\<bar>)"
    using round64_finite [of "of_int (nask - nbid) / of_int nask"]
    by (auto simp add: init_py_def split: py_float.splits)
next
  show "(\<exists>a. init_py (PyInt ns) (PyInt nl) (PyInt nr) (PyInt nb) (PyInt nbid) (PyInt nask) = Inr a)
       = (nask \<noteq> 0 \<and> \<bar>of_int (nask - nbid) / of_int nask\<bar> < pow2 1024 - pow2 970)"
    using round64_finite [of "of_int (nask - nbid) / of_int nask"]
    by (auto simp add: init_py_def split: py_float.splits)
qed

theorem C6_construction_errors_witness:
  "init_py (PyInt 3) (PyInt 1) (PyInt 60) (PyInt 2) (PyInt 99) (PyInt 0) = Inl ZeroDivisionError
   \<and> evaluate_py (PyInt 3) (PyInt 1) (PyInt 60) (PyInt 2) (PyInt 99) (PyInt 0)
       = Inl ZeroDivisionError
   \<and> init_py (PyFloat (Fin 3)) (PyFloat (Fin 1)) (PyFloat (Fin 60)) (PyFloat (Fin 2))
         (PyFloat (Fin 99)) (PyFloat (Fin 0)) = Inl ZeroDivisionError
   \<and> init_py (PyInt 3) (PyInt 1) (PyInt 60) (PyInt 2) (PyInt (10 ^ 400)) (PyFloat (Fin 0))
       \<in> {Inl ZeroDivisionError, Inl OverflowError}
   \<and> (\<exists>a. init_py (PyInt 3) (PyInt 1) (PyInt 60) (PyInt 2) (PyInt 99) (PyInt 100) = Inr a)
   \<and> (\<exists>a. init_py (PyFloat (Fin 3)) (PyFloat (Fin 1)) (PyFloat (Fin 60)) (PyFloat (Fin 2))
         (PyFloat (Fin 99)) (PyFloat (Fin 100)) = Inr a)"
  using
    C6_construction_errors [where ns = 3 and nl = 1 and nr = 60 and nb = 2 and nbid = 99
      and nask = 0 and ma_s' = "PyInt 3" and ma_l' = "PyInt 1" and rsi' = "PyInt 60"
      and beta_stock' = "PyInt 2" and bid_price' = "PyInt 99" and ask_price' = "PyInt 0"
      and e = ZeroDivisionError and fs = "Fin 3" and fl = "Fin 1" and fr = "Fin 60"
      and fb = "Fin 2" and fbid = "Fin 99" and fask = "Fin 0"]
    C6_construction_errors [where ns = 3 and nl = 1 and nr = 60 and nb = 2 and nbid = 99
      and nask = 100 and ma_s' = "PyInt 3" and ma_l' = "PyInt 1" and rsi' = "PyInt 60"
      and beta_stock' = "PyInt 2" and bid_price' = "PyInt (10 ^ 400)"
      and ask_price' = "PyFloat (Fin 0)"
      and e = ZeroDivisionError and fs = "Fin 3" and fl = "Fin 1" and fr = "Fin 60"
      and fb = "Fin 2" and fbid = "Fin 99" and fask = "Fin 100"]
  by (simp add: pow2_def)

text \<open>
  A nonzero ask price does not make construction succeed: with the ints
  \<open>bid_price = - 10 ^ 400\<close> and \<open>ask_price = 1\<close> the quotient is too large for a float
  and the constructor, and so the caller, ends with \<open>OverflowError\<close>.
\<close>

theorem C6_overflow_counterexample:
  "PyInt 1 \<notin> {PyInt 0, PyFloat (Fin 0)}
   \<and> init_py (PyInt 3) (PyInt 1) (PyInt 60) (PyInt 2) (PyInt (- (10 ^ 400))) (PyInt 1)
       = Inl OverflowError
   \<and> evaluate_py (PyInt 3) (PyInt 1) (PyInt 60) (PyInt 2) (PyInt (- (10 ^ 400))) (PyInt 1)
       = Inl OverflowError"
  by (simp add: evaluate_py_def init_py_def round64_def pow2_def)

subsection \<open>The derived fields\<close>

text \<open>
  C8, as it holds of the code. When construction succeeds the object holds the six
  inputs as given, \<open>bid_ask_spread\<close> is the value of Python's
  \<open>(ask_price - bid_price) / ask_price\<close> and \<open>dcm\<close> the value of Python's \<open>ma_s - ma_l\<close>:
  the difference of two ints is exact, the difference of two floats is the exact
  difference rounded to the nearest double, and the quotient is the exact quotient (of
  the difference already rounded, for floats) rounded to the nearest double. A value
  so rounded is within half a quantum of the exact one. The two fields are computed
  there and nowhere else: the blocks leave the object as constructed, so after an
  evaluation both still hold these values.
\<close>

theorem C8_stored_derived_fields:
  assumes "init_py ma_s' ma_l' rsi' beta_stock' bid_price' ask_price' = Inr a"
  shows "ma_s_py a = ma_s' \<and> ma_l_py a = ma_l' \<and> rsi_py a = rsi'
      \<and> beta_stock_py a = beta_stock' \<and> bid_price_py a = bid_price'
      \<and> ask_price_py a = ask_price'
      \<and> (\<exists>diff. py_sub ask_price' bid_price' = Inr diff
            \<and> py_truediv diff ask_price' = Inr (bid_ask_spread_py a))
      \<and> py_sub ma_s' ma_l' = Inr (dcm_py a)
      \<and> (\<forall>i j. ma_s' = PyInt i \<and> ma_l' = PyInt j \<longrightarrow> dcm_py a = PyInt (i - j))
      \<and> (\<forall>x y. ma_s' = PyFloat (Fin x) \<and> ma_l' = PyFloat (Fin y) \<longrightarrow>
            dcm_py a = PyFloat (round64 (x - y)))
      \<and> (\<forall>i j. ask_price' = PyInt i \<and> bid_price' = PyInt j \<longrightarrow>
            bid_ask_spread_py a = PyFloat (round64 (of_int (i - j) / of_int i)))
      \<and> (\<forall>x y d. ask_price' = PyFloat (Fin x) \<and> bid_price' = PyFloat (Fin y)
              \<and> round64 (x - y) = Fin d \<longrightarrow>
            bid_ask_spread_py a = PyFloat (round64 (d / x)))
      \<and> (\<forall>x y r. ma_s' = PyFloat (Fin x) \<and> ma_l' = PyFloat (Fin y)
              \<and> dcm_py a = PyFloat (Fin r) \<longrightarrow>
            \<bar>r - (x - y)\<bar> \<le> quantum (x - y) / 2)
      \<and> (\<forall>i j r. ask_price' = PyInt i \<and> bid_price' = PyInt j
              \<and> bid_ask_spread_py a = PyFloat (Fin r) \<longrightarrow>
            \<bar>r - of_int (i - j) / of_int i\<bar> \<le> quantum (of_int (i - j) / of_int i) / 2)
      \<and> snd (block1_py a) = a \<and> snd (block2_py a) = a \<and> snd (block3_py a) = a
      \<and> bid_ask_spread_py (snd (block3_py a)) = bid_ask_spread_py a
      \<and> dcm_py (snd (block3_py a)) = dcm_py a"
proof -
  from assms obtain diff spread delta where d: "py_sub ask_price' bid_price' = Inr diff"
    and s: "py_truediv diff ask_price' = Inr spread"
    and m: "py_sub ma_s' ma_l' = Inr delta"
    and a: "a = \<lparr> ma_s_py = ma_s', ma_l_py = ma_l', rsi_py = rsi',
                  beta_stock_py = beta_stock', bid_price_py = bid_price',
                  ask_price_py = ask_price', bid_ask_spread_py = spread, dcm_py = delta \<rparr>"
    by (auto simp add: init_py_def split: sum.splits)
  have ints: "dcm_py a = PyInt (i - j)" if "ma_s' = PyInt i \<and> ma_l' = PyInt j" for i j
    using that m a by simp
  have floats: "dcm_py a = PyFloat (round64 (x - y))"
    if "ma_s' = PyFloat (Fin x) \<and> ma_l' = PyFloat (Fin y)" for x y
    using that m a by simp
  have sints: "bid_ask_spread_py a = PyFloat (round64 (of_int (i - j) / of_int i))"
    if "ask_price' = PyInt i \<and> bid_price' = PyInt j" for i j
    using that d s a by (auto split: if_splits py_float.splits)
  have sfloats: "bid_ask_spread_py a = PyFloat (round64 (d' / x))"
    if "ask_price' = PyFloat (Fin x) \<and> bid_price' = PyFloat (Fin y) \<and> round64 (x - y) = Fin d'"
    for x y d'
    using that d s a by (auto split: if_splits)
  from d s m a have base: "ma_s_py a = ma_s' \<and> ma_l_py a = ma_l' \<and> rsi_py a = rsi'
      \<and> beta_stock_py a = beta_stock' \<and> bid_price_py a = bid_price'
      \<and> ask_price_py a = ask_price'
      \<and> (\<exists>diff. py_sub ask_price' bid_price' = Inr diff
            \<and> py_truediv diff ask_price' = Inr (bid_ask_spread_py a))
      \<and> py_sub ma_s' ma_l' = Inr (dcm_py a)"
    by simp
  have fnear: "\<bar>r - (x - y)\<bar> \<le> quantum (x - y) / 2"
    if "ma_s' = PyFloat (Fin x) \<and> ma_l' = PyFloat (Fin y) \<and> dcm_py a = PyFloat (Fin r)"
    for x y r
  proof -
    from that floats [of x y] have "round64 (x - y) = Fin r" by simp
    then show ?thesis by (rule round64_near)
  qed
  have snear: "\<bar>r - of_int (i - j) / of_int i\<bar> \<le> quantum (of_int (i - j) / of_int i) / 2"
    if "ask_price' = PyInt i \<and> bid_price' = PyInt j \<and> bid_ask_spread_py a = PyFloat (Fin r)"
    for i j r
  proof -
    from that sints [of i j] have "round64 (of_int (i - j) / of_int i) = Fin r" by simp
    then show ?thesis by (rule round64_near)
  qed
  have pure: "snd (block1_py a) = a \<and> snd (block2_py a) = a \<and> snd (block3_py a) = a
      \<and> bid_ask_spread_py (snd (block3_py a)) = bid_ask_spread_py a
      \<and> dcm_py (snd (block3_py a)) = dcm_py a"
    by (simp add: block1_py_self block2_py_self block3_py_self)
  from base ints floats sints sfloats fnear snear pure show ?thesis by blast
qed

theorem C8_stored_derived_fields_witness:
  "init_py (float_literal (12764 / 100)) (float_literal (10717 / 100))
       (float_literal (5064 / 100)) (float_literal (128 / 100))
       (float_literal (13175 / 100)) (float_literal (13178 / 100))
     = Inr \<lparr> ma_s_py = PyFloat (Fin (8981866506837033 / 70368744177664)),
         ma_l_py = PyFloat (Fin (7541418313520251 / 70368744177664)),
         rsi_py = PyFloat (Fin (3563473205156905 / 70368744177664)),
         beta_stock_py = PyFloat (Fin (5764607523034235 / 4503599627370496)),
         bid_price_py = PyFloat (Fin (527 / 4)),
         ask_price_py = PyFloat (Fin (4636596553866281 / 35184372088832)),
         bid_ask_spread_py = PyFloat (Fin (4199440903105991 / 18446744073709551616)),
         dcm_py = PyFloat (Fin (720224096658391 / 35184372088832)) \<rparr>
   \<and> py_sub (float_literal (12764 / 100)) (float_literal (10717 / 100))
     = Inr (PyFloat (Fin (720224096658391 / 35184372088832)))
   \<and> (\<exists>diff. py_sub (float_literal (13178 / 100)) (float_literal (13175 / 100)) = Inr diff
        \<and> py_truediv diff (float_literal (13178 / 100))
          = Inr (PyFloat (Fin (4199440903105991 / 18446744073709551616))))
   \<and> snd (block3_py
        \<lparr> ma_s_py = PyFloat (Fin (8981866506837033 / 70368744177664)),
          ma_l_py = PyFloat (Fin (7541418313520251 / 70368744177664)),
          rsi_py = PyFloat (Fin (3563473205156905 / 70368744177664)),
          beta_stock_py = PyFloat (Fin (5764607523034235 / 4503599627370496)),
          bid_price_py = PyFloat (Fin (527 / 4)),
          ask_price_py = PyFloat (Fin (4636596553866281 / 35184372088832)),
          bid_ask_spread_py = PyFloat (Fin (4199440903105991 / 18446744073709551616)),
          dcm_py = PyFloat (Fin (720224096658391 / 35184372088832)) \<rparr>)
     = \<lparr> ma_s_py = PyFloat (Fin (8981866506837033 / 70368744177664)),
         ma_l_py = PyFloat (Fin (7541418313520251 / 70368744177664)),
         rsi_py = PyFloat (Fin (3563473205156905 / 70368744177664)),
         beta_stock_py = PyFloat (Fin (5764607523034235 / 4503599627370496)),
         bid_price_py = PyFloat (Fin (527 / 4)),
         ask_price_py = PyFloat (Fin (4636596553866281 / 35184372088832)),
         bid_ask_spread_py = PyFloat (Fin (4199440903105991 / 18446744073709551616)),
         dcm_py = PyFloat (Fin (720224096658391 / 35184372088832)) \<rparr>"
proof -
  have run: "init_py (float_literal (12764 / 100)) (float_literal (10717 / 100))
       (float_literal (5064 / 100)) (float_literal (128 / 100))
       (float_literal (13175 / 100)) (float_literal (13178 / 100))
     = Inr \<lparr> ma_s_py = PyFloat (Fin (8981866506837033 / 70368744177664)),
         ma_l_py = PyFloat (Fin (7541418313520251 / 70368744177664)),
         rsi_py = PyFloat (Fin (3563473205156905 / 70368744177664)),
         beta_stock_py = PyFloat (Fin (5764607523034235 / 4503599627370496)),
         bid_price_py = PyFloat (Fin (527 / 4)),
         ask_price_py = PyFloat (Fin (4636596553866281 / 35184372088832)),
         bid_ask_spread_py = PyFloat (Fin (4199440903105991 / 18446744073709551616)),
         dcm_py = PyFloat (Fin (720224096658391 / 35184372088832)) \<rparr>"
    by (simp add: init_py_def float_eval)
  note stored = C8_stored_derived_fields [OF run]
  from stored have "py_sub (float_literal (12764 / 100)) (float_literal (10717 / 100))
       = Inr (dcm_py
        \<lparr> ma_s_py = PyFloat (Fin (8981866506837033 / 70368744177664)),
          ma_l_py = PyFloat (Fin (7541418313520251 / 70368744177664)),
          rsi_py = PyFloat (Fin (3563473205156905 / 70368744177664)),
          beta_stock_py = PyFloat (Fin (5764607523034235 / 4503599627370496)),
          bid_price_py = PyFloat (Fin (527 / 4)),
          ask_price_py = PyFloat (Fin (4636596553866281 / 35184372088832)),
          bid_ask_spread_py = PyFloat (Fin (4199440903105991 / 18446744073709551616)),
          dcm_py = PyFloat (Fin (720224096658391 / 35184372088832)) \<rparr>)"
    by blast
  then have delta: "py_sub (float_literal (12764 / 100)) (float_literal (10717 / 100))
       = Inr (PyFloat (Fin (720224096658391 / 35184372088832)))"
    by simp
  from stored have "\<exists>diff. py_sub (float_literal (13178 / 100)) (float_literal (13175 / 100)) = Inr diff
        \<and> py_truediv diff (float_literal (13178 / 100))
          = Inr (bid_ask_spread_py
        \<lparr> ma_s_py = PyFloat (Fin (8981866506837033 / 70368744177664)),
          ma_l_py = PyFloat (Fin (7541418313520251 / 70368744177664)),
          rsi_py = PyFloat (Fin (3563473205156905 / 70368744177664)),
          beta_stock_py = PyFloat (Fin (5764607523034235 / 4503599627370496)),
          bid_price_py = PyFloat (Fin (527 / 4)),
          ask_price_py = PyFloat (Fin (4636596553866281 / 35184372088832)),
          bid_ask_spread_py = PyFloat (Fin (4199440903105991 / 18446744073709551616)),
          dcm_py = PyFloat (Fin (720224096658391 / 35184372088832)) \<rparr>)"
    by blast
  then have spread: "\<exists>diff. py_sub (float_literal (13178 / 100)) (float_literal (13175 / 100)) = Inr diff
        \<and> py_truediv diff (float_literal (13178 / 100))
          = Inr (PyFloat (Fin (4199440903105991 / 18446744073709551616)))"
    by simp
  from stored have same: "snd (block3_py
        \<lparr> ma_s_py = PyFloat (Fin (8981866506837033 / 70368744177664)),
          ma_l_py = PyFloat (Fin (7541418313520251 / 70368744177664)),
          rsi_py = PyFloat (Fin (3563473205156905 / 70368744177664)),
          beta_stock_py = PyFloat (Fin (5764607523034235 / 4503599627370496)),
          bid_price_py = PyFloat (Fin (527 / 4)),
          ask_price_py = PyFloat (Fin (4636596553866281 / 35184372088832)),
          bid_ask_spread_py = PyFloat (Fin (4199440903105991 / 18446744073709551616)),
          dcm_py = PyFloat (Fin (720224096658391 / 35184372088832)) \<rparr>)
     = \<lparr> ma_s_py = PyFloat (Fin (8981866506837033 / 70368744177664)),
          ma_l_py = PyFloat (Fin (7541418313520251 / 70368744177664)),
          rsi_py = PyFloat (Fin (3563473205156905 / 70368744177664)),
          beta_stock_py = PyFloat (Fin (5764607523034235 / 4503599627370496)),
          bid_price_py = PyFloat (Fin (527 / 4)),
          ask_price_py = PyFloat (Fin (4636596553866281 / 35184372088832)),
          bid_ask_spread_py = PyFloat (Fin (4199440903105991 / 18446744073709551616)),
          dcm_py = PyFloat (Fin (720224096658391 / 35184372088832)) \<rparr>"
    by blast
  from run delta spread same show ?thesis by (intro conjI)
qed

text \<open>
  The stored values are not the real difference and quotient. With the float literals
  \<open>1.2\<close> and \<open>0.2\<close> for the moving averages and the ints \<open>99\<close> and \<open>100\<close> for the
  prices, \<open>dcm\<close> is \<open>1.0\<close> where the two doubles differ by \<open>1 - 2 ^ - 54\<close>, and the
  spread is the double nearest to \<open>1 / 100\<close>, not \<open>1 / 100\<close>.
\<close>

theorem C8_rounding_counterexample:
  "init_py (float_literal (12 / 10)) (float_literal (2 / 10)) (PyInt 60) (PyInt 2)
       (PyInt 99) (PyInt 100)
     = Inr \<lparr> ma_s_py = PyFloat (Fin (5404319552844595 / 4503599627370496)),
             ma_l_py = PyFloat (Fin (3602879701896397 / 18014398509481984)),
             rsi_py = PyInt 60, beta_stock_py = PyInt 2, bid_price_py = PyInt 99,
             ask_price_py = PyInt 100,
             bid_ask_spread_py = PyFloat (Fin (5764607523034235 / 576460752303423488)),
             dcm_py = PyFloat (Fin 1) \<rparr>
   \<and> (5404319552844595 / 4503599627370496 - 3602879701896397 / 18014398509481984 :: real) \<noteq> 1
   \<and> (5764607523034235 / 576460752303423488 :: real) \<noteq> (100 - 99) / 100"
  by (simp add: init_py_def int_to_float_def float_eval)

end
